theory Spec2Isabelle
  imports Main
begin

section \<open>The icon converter \<^verbatim>\<open>src-tauri/icons/convert_to_rgba.py\<close>\<close>

text \<open>
  The script opens \<^verbatim>\<open>app_icon.png\<close> with Pillow, converts the raster to mode
  \<^verbatim>\<open>RGBA\<close> unless it already has that mode, saves it as \<^verbatim>\<open>app_icon_rgba.png\<close>,
  re-opens the saved file and prints its mode and size. Pillow and the file system
  are outside the repository: the script is embedded as a function of the library's
  operations (a record of functions over a world the library acts on), and it returns
  what a run leaves behind: standard output, the exit status, the library calls it
  made in order, and the world.
\<close>

subsection \<open>Data\<close>

type_synonym path = string

text \<open>
  Exceptions a library call can raise, all subclasses of \<^verbatim>\<open>Exception\<close>. The handlers of
  the script tell \<^verbatim>\<open>ImportError\<close> (with its subclass \<^verbatim>\<open>ModuleNotFoundError\<close>) from
  everything else; \<^verbatim>\<open>FileNotFoundError\<close> is kept apart because it is how the script
  learns that a file does not exist. The string is \<^verbatim>\<open>str(e)\<close>.
\<close>

datatype exn = ImportError string | FileNotFoundError string | OtherException string

fun is_ImportError :: "exn \<Rightarrow> bool" where
  "is_ImportError (ImportError m) = True"
| "is_ImportError (FileNotFoundError m) = False"
| "is_ImportError (OtherException m) = False"

fun str_exn :: "exn \<Rightarrow> string" where
  "str_exn (ImportError m) = m"
| "str_exn (FileNotFoundError m) = m"
| "str_exn (OtherException m) = m"

text \<open>
  A decoded raster (spec, section 3): colour mode, pixel dimensions and pixel buffer,
  one list of band values per pixel. \<open>format\<close> is Pillow's attribute of that name:
  the container format of the file the raster was read from, \<open>None\<close> for a raster
  the library made itself.
\<close>

record image =
  mode :: string
  size_px :: "nat \<times> nat"
  pixels :: "nat list list"
  format :: "string option"

text \<open>
  Modelled from the spec: the table of mode names belongs to Pillow, not to the
  repository. A mode carries alpha when one of its bands is an alpha band (glossary,
  "Alpha channel"); of Pillow's modes these are \<^verbatim>\<open>RGBA\<close>, \<^verbatim>\<open>LA\<close> (greyscale with
  alpha), \<^verbatim>\<open>PA\<close> (palette with alpha) and the premultiplied \<^verbatim>\<open>RGBa\<close> and \<^verbatim>\<open>La\<close>.
\<close>

definition has_alpha :: "string \<Rightarrow> bool" where
  "has_alpha m = (m \<in> set [''RGBA'', ''LA'', ''PA'', ''RGBa'', ''La''])"

text \<open>The library calls a run makes, with their arguments.\<close>

datatype call =
    Open path
  | Convert image string
  | Save image path string

fun is_Convert :: "call \<Rightarrow> bool" where
  "is_Convert (Convert img m) = True"
| "is_Convert (Open p) = False"
| "is_Convert (Save img p f) = False"

fun is_Save :: "call \<Rightarrow> bool" where
  "is_Save (Save img p f) = True"
| "is_Save (Open p) = False"
| "is_Save (Convert img m) = False"

text \<open>The paths a sequence of calls reads (decodes) and writes (encodes).\<close>

fun read_paths :: "call list \<Rightarrow> path list" where
  "read_paths [] = []"
| "read_paths (Open p # cs) = p # read_paths cs"
| "read_paths (Convert img m # cs) = read_paths cs"
| "read_paths (Save img p f # cs) = read_paths cs"

fun written_paths :: "call list \<Rightarrow> path list" where
  "written_paths [] = []"
| "written_paths (Open p # cs) = written_paths cs"
| "written_paths (Convert img m # cs) = written_paths cs"
| "written_paths (Save img p f # cs) = p # written_paths cs"

subsection \<open>The library, as the script uses it\<close>

text \<open>
  \<open>import_Image\<close> is the outcome of line 3, \<^verbatim>\<open>from PIL import Image\<close>: \<open>None\<close> when
  the import succeeds, the exception it raises otherwise. The three operations are
  \<^verbatim>\<open>Image.open(path)\<close>, \<^verbatim>\<open>img.convert(mode)\<close> and \<^verbatim>\<open>img.save(path, format)\<close>; each
  takes the world, may change it, and returns a value or raises.
\<close>

record 'w pil =
  import_Image :: "exn option"
  Image_open :: "'w \<Rightarrow> path \<Rightarrow> (exn + image) \<times> 'w"
  convert :: "'w \<Rightarrow> image \<Rightarrow> string \<Rightarrow> (exn + image) \<times> 'w"
  save :: "'w \<Rightarrow> image \<Rightarrow> path \<Rightarrow> string \<Rightarrow> exn option \<times> 'w"

text \<open>What a run has done so far, and what it leaves behind when the process ends.\<close>

record 'w state =
  stdout :: "string list"
  log :: "(call \<times> exn option) list"
  world :: "'w"

record 'w outcome = "'w state" +
  exit_status :: nat
  traceback :: "exn option"

text \<open>
  The log pairs each library call with the exception it raised, if any; \<open>calls\<close>
  forgets the results.
\<close>

definition calls :: "('w, 'z) state_scheme \<Rightarrow> call list" where
  "calls s = map fst (log s)"

definition raised :: "exn + 'a \<Rightarrow> exn option" where
  "raised r = (case r of Inl e \<Rightarrow> Some e | Inr v \<Rightarrow> None)"

definition start :: "'w \<Rightarrow> 'w state" where
  "start w = \<lparr>stdout = [], log = [], world = w\<rparr>"

definition print :: "string \<Rightarrow> 'w state \<Rightarrow> 'w state" where
  "print line s = s\<lparr>stdout := stdout s @ [line]\<rparr>"

definition do_open :: "'w pil \<Rightarrow> path \<Rightarrow> 'w state \<Rightarrow> (exn + image) \<times> 'w state" where
  "do_open L p s =
     (case Image_open L (world s) p of
        (r, w') \<Rightarrow> (r, s\<lparr>log := log s @ [(Open p, raised r)], world := w'\<rparr>))"

definition do_convert :: "'w pil \<Rightarrow> image \<Rightarrow> string \<Rightarrow> 'w state \<Rightarrow> (exn + image) \<times> 'w state" where
  "do_convert L img m s =
     (case convert L (world s) img m of
        (r, w') \<Rightarrow> (r, s\<lparr>log := log s @ [(Convert img m, raised r)], world := w'\<rparr>))"

definition do_save :: "'w pil \<Rightarrow> image \<Rightarrow> path \<Rightarrow> string \<Rightarrow> 'w state \<Rightarrow> exn option \<times> 'w state" where
  "do_save L img p f s =
     (case save L (world s) img p f of
        (r, w') \<Rightarrow> (r, s\<lparr>log := log s @ [(Save img p f, r)], world := w'\<rparr>))"

subsection \<open>Formatting\<close>

text \<open>\<^verbatim>\<open>str\<close> of a non-negative integer and of a pair of them, as the f-strings print.\<close>

function str_nat :: "nat \<Rightarrow> string" where
  "str_nat n =
     (if n < 10 then [''0123456789'' ! n]
      else str_nat (n div 10) @ [''0123456789'' ! (n mod 10)])"
  by pat_completeness auto
termination
  by (relation "measure id") auto

definition str_size :: "nat \<times> nat \<Rightarrow> string" where
  "str_size sz = ''('' @ str_nat (fst sz) @ '', '' @ str_nat (snd sz) @ '')''"

subsection \<open>The script\<close>

definition src :: path where
  "src = ''app_icon.png''"

definition dst :: path where
  "dst = ''app_icon_rgba.png''"

text \<open>
  Lines 11-12: \<^verbatim>\<open>if img.mode != 'RGBA': img = img.convert('RGBA')\<close>.
\<close>

definition ensure_rgba :: "'w pil \<Rightarrow> image \<Rightarrow> 'w state \<Rightarrow> (exn + image) \<times> 'w state" where
  "ensure_rgba L img s =
     (if mode img \<noteq> ''RGBA'' then do_convert L img ''RGBA'' s else (Inr img, s))"

text \<open>
  Lines 7-21, the body of the \<^verbatim>\<open>try\<close>: it returns the exception that left it, if any,
  and the state reached.
\<close>

definition try_body :: "'w pil \<Rightarrow> 'w state \<Rightarrow> exn option \<times> 'w state" where
  "try_body L s0 =
     (case do_open L src s0 of
        (Inl e, s1) \<Rightarrow> (Some e, s1)
      | (Inr img, s1) \<Rightarrow>
          (case ensure_rgba L img s1 of
             (Inl e, s2) \<Rightarrow> (Some e, s2)
           | (Inr img', s2) \<Rightarrow>
               (case do_save L img' dst ''PNG'' s2 of
                  (Some e, s3) \<Rightarrow> (Some e, s3)
                | (None, s3) \<Rightarrow>
                    (let s4 = print ''Successfully converted to RGBA format'' s3 in
                     (case do_open L dst s4 of
                        (Inl e, s5) \<Rightarrow> (Some e, s5)
                      | (Inr test_img, s5) \<Rightarrow>
                          (None,
                           print (''New image size: '' @ str_size (size_px test_img))
                             (print (''New image mode: '' @ mode test_img) s5)))))))"

definition finish :: "nat \<Rightarrow> exn option \<Rightarrow> 'w state \<Rightarrow> 'w outcome" where
  "finish code tb s =
     \<lparr>stdout = stdout s, log = log s, world = world s, exit_status = code, traceback = tb\<rparr>"

text \<open>
  The whole script. Line 3 stands before the \<^verbatim>\<open>try\<close>: an exception it raises is not
  handled, the interpreter writes the traceback to standard error and the process
  ends with status 1. The handlers of lines 23-28 see the exceptions of the body
  only; both end in \<^verbatim>\<open>sys.exit(1)\<close>. A body that runs to its end leaves status 0.
\<close>

definition handlers :: "exn \<Rightarrow> 'w state \<Rightarrow> 'w outcome" where
  "handlers e s =
     (if is_ImportError e
      then finish 1 None
             (print ''PIL not available - please install Pillow: pip install Pillow'' s)
      else finish 1 None (print (''Error: '' @ str_exn e) s))"

definition main :: "'w pil \<Rightarrow> 'w \<Rightarrow> 'w outcome" where
  "main L w =
     (case import_Image L of
        Some e \<Rightarrow> finish 1 (Some e) (start w)
      | None \<Rightarrow>
          (case try_body L (start w) of
             (None, s) \<Rightarrow> finish 0 None s
           | (Some e, s) \<Rightarrow> handlers e s))"

text \<open>
  For stating how a run went: \<open>converted_by\<close> says that lines 11-12, entered with
  \<open>img\<close> in world \<open>w1\<close>, left \<open>img'\<close> in world \<open>w2\<close>; \<open>conversions\<close> is what those
  lines add to the log when they raise nothing.
\<close>

definition converted_by :: "'w pil \<Rightarrow> image \<Rightarrow> 'w \<Rightarrow> image \<Rightarrow> 'w \<Rightarrow> bool" where
  "converted_by L img w1 img' w2 =
     (if mode img \<noteq> ''RGBA'' then convert L w1 img ''RGBA'' = (Inr img', w2)
      else img' = img \<and> w2 = w1)"

definition conversions :: "image \<Rightarrow> (call \<times> exn option) list" where
  "conversions img = (if mode img \<noteq> ''RGBA'' then [(Convert img ''RGBA'', None)] else [])"

text \<open>The container formats a sequence of calls encodes to.\<close>

fun save_formats :: "call list \<Rightarrow> string list" where
  "save_formats [] = []"
| "save_formats (Open p # cs) = save_formats cs"
| "save_formats (Convert img m # cs) = save_formats cs"
| "save_formats (Save img p f # cs) = f # save_formats cs"

subsection \<open>What the library promises\<close>

text \<open>
  Modelled from the spec: \<^verbatim>\<open>Image.convert\<close> is Pillow's, not the repository's. Section
  4.1 has it "perform mode conversion to an alpha-carrying representation": a
  conversion that returns, returns a raster of the mode that was asked for.
\<close>

definition convert_gives_mode :: "'w pil \<Rightarrow> bool" where
  "convert_gives_mode L =
     (\<forall>w img m img' w'. convert L w img m = (Inr img', w') \<longrightarrow> mode img' = m)"

text \<open>The alpha value of a pixel of an alpha-carrying mode: its last band.\<close>

definition alpha :: "nat list \<Rightarrow> nat" where
  "alpha px = last px"

definition opaque :: nat where
  "opaque = 255"

text \<open>
  Modelled from the spec: the rest of what sections 4.1 and 8 say of the conversion,
  which is Pillow's: "pixels without an explicit alpha channel are assigned full
  opacity", and "output dimensions equal input dimensions".
\<close>

definition convert_spec :: "'w pil \<Rightarrow> bool" where
  "convert_spec L =
     (\<forall>w img m img' w'. convert L w img m = (Inr img', w') \<longrightarrow>
        mode img' = m \<and> size_px img' = size_px img \<and>
        length (pixels img') = length (pixels img) \<and>
        (\<not> has_alpha (mode img) \<and> has_alpha m \<longrightarrow>
           list_all (\<lambda>px. alpha px = opaque) (pixels img')))"

subsection \<open>A reference library and file system\<close>

text \<open>
  Modelled from the spec: Pillow and the file system are not part of the repository.
  This instance of the library follows section 4.1 (decode, convert, encode,
  re-decode) and its error conditions (missing source file, unreadable or corrupt
  image, write permission failure). It gives the runs that the witnesses and
  counterexamples below evaluate. A path holds an encoded raster or bytes that are no
  image; a file may be closed to reading or to writing.
\<close>

datatype stored = Encoded image | Garbage

record fs =
  files :: "path \<Rightarrow> stored option"
  readable :: "path \<Rightarrow> bool"
  writable :: "path \<Rightarrow> bool"

definition quoted :: "string \<Rightarrow> string" where
  "quoted p = [CHR 0x27] @ p @ [CHR 0x27]"

definition pillow_open :: "fs \<Rightarrow> path \<Rightarrow> (exn + image) \<times> fs" where
  "pillow_open w p =
     (case files w p of
        None \<Rightarrow>
          (Inl (FileNotFoundError (''[Errno 2] No such file or directory: '' @ quoted p)), w)
      | Some c \<Rightarrow>
          (if \<not> readable w p
           then (Inl (OtherException (''[Errno 13] Permission denied: '' @ quoted p)), w)
           else (case c of
                   Garbage \<Rightarrow>
                     (Inl (OtherException (''cannot identify image file '' @ quoted p)), w)
                 | Encoded img \<Rightarrow> (Inr img, w))))"

text \<open>
  The conversion to \<^verbatim>\<open>RGBA\<close>, for the modes \<^verbatim>\<open>RGBA\<close>, \<^verbatim>\<open>RGB\<close>, \<^verbatim>\<open>L\<close> and \<^verbatim>\<open>LA\<close>: colour
  without alpha becomes opaque, a grey level becomes three equal colour bands, an
  alpha band is kept. The instance converts nothing else.
\<close>

fun rgba_of_L :: "nat list \<Rightarrow> nat list" where
  "rgba_of_L [] = [0, 0, 0, opaque]"
| "rgba_of_L (l # bs) = [l, l, l, opaque]"

fun rgba_of_LA :: "nat list \<Rightarrow> nat list" where
  "rgba_of_LA [l, a] = [l, l, l, a]"
| "rgba_of_LA bs = bs"

definition rgba_of_RGB :: "nat list \<Rightarrow> nat list" where
  "rgba_of_RGB bs = bs @ [opaque]"

definition converted :: "image \<Rightarrow> (nat list \<Rightarrow> nat list) \<Rightarrow> image" where
  "converted img f =
     \<lparr>mode = ''RGBA'', size_px = size_px img, pixels = map f (pixels img), format = None\<rparr>"

definition pillow_convert :: "fs \<Rightarrow> image \<Rightarrow> string \<Rightarrow> (exn + image) \<times> fs" where
  "pillow_convert w img m =
     (if m \<noteq> ''RGBA'' then (Inl (OtherException ''conversion not supported''), w)
      else if mode img = ''RGBA'' then (Inr (converted img id), w)
      else if mode img = ''RGB'' then (Inr (converted img rgba_of_RGB), w)
      else if mode img = ''L'' then (Inr (converted img rgba_of_L), w)
      else if mode img = ''LA'' then (Inr (converted img rgba_of_LA), w)
      else (Inl (OtherException ''conversion not supported''), w))"

definition pillow_save :: "fs \<Rightarrow> image \<Rightarrow> path \<Rightarrow> string \<Rightarrow> exn option \<times> fs" where
  "pillow_save w img p f =
     (if \<not> writable w p
      then (Some (OtherException (''[Errno 13] Permission denied: '' @ quoted p)), w)
      else (None, w\<lparr>files := (files w)(p \<mapsto> Encoded (img\<lparr>format := Some f\<rparr>))\<rparr>))"

definition pillow :: "fs pil" where
  "pillow =
     \<lparr>import_Image = None, Image_open = pillow_open, convert = pillow_convert,
      save = pillow_save\<rparr>"

text \<open>An installation without Pillow: line 3 raises \<^verbatim>\<open>ModuleNotFoundError\<close>.\<close>

definition no_pillow :: "fs pil" where
  "no_pillow =
     pillow\<lparr>import_Image := Some (ImportError (''No module named '' @ quoted ''PIL''))\<rparr>"

text \<open>A directory that holds the given file as \<^verbatim>\<open>app_icon.png\<close> and nothing else.\<close>

definition dir_with :: "stored \<Rightarrow> fs" where
  "dir_with c =
     \<lparr>files = (\<lambda>p. if p = src then Some c else None),
      readable = (\<lambda>p. True), writable = (\<lambda>p. True)\<rparr>"

text \<open>
  The same directory under a umask that strips read permission from the files the
  process creates: only \<^verbatim>\<open>app_icon.png\<close> can be read.
\<close>

definition dir_no_read_back :: "stored \<Rightarrow> fs" where
  "dir_no_read_back c = (dir_with c)\<lparr>readable := (\<lambda>p. p = src)\<rparr>"

definition empty_dir :: fs where
  "empty_dir = \<lparr>files = (\<lambda>p. None), readable = (\<lambda>p. True), writable = (\<lambda>p. True)\<rparr>"

text \<open>Sample rasters: two pixels each, in four modes and two container formats.\<close>

definition rgb_png :: image where
  "rgb_png =
     \<lparr>mode = ''RGB'', size_px = (2, 1), pixels = [[10, 20, 30], [40, 50, 60]],
      format = Some ''PNG''\<rparr>"

definition rgba_png :: image where
  "rgba_png =
     \<lparr>mode = ''RGBA'', size_px = (2, 1), pixels = [[10, 20, 30, 128], [40, 50, 60, 0]],
      format = Some ''PNG''\<rparr>"

definition la_png :: image where
  "la_png =
     \<lparr>mode = ''LA'', size_px = (2, 1), pixels = [[128, 64], [200, 255]],
      format = Some ''PNG''\<rparr>"

definition rgb_jpeg :: image where
  "rgb_jpeg =
     \<lparr>mode = ''RGB'', size_px = (2, 1), pixels = [[10, 20, 30], [40, 50, 60]],
      format = Some ''JPEG''\<rparr>"

section \<open>Properties\<close>

subsection \<open>How a run goes\<close>

text \<open>
  One equation for each way through the script, and the case distinction that they
  are all the ways there are.
\<close>

lemma src_neq_dst: "src \<noteq> dst"
  by (simp add: src_def dst_def)

lemma handlers_fields:
  "exit_status (handlers e s) = 1"
  "traceback (handlers e s) = None"
  "log (handlers e s) = log s"
  "world (handlers e s) = world s"
  "stdout (handlers e s) = stdout s @
     [if is_ImportError e
      then ''PIL not available - please install Pillow: pip install Pillow''
      else ''Error: '' @ str_exn e]"
  by (simp_all add: handlers_def finish_def print_def)

lemma main_import_fails:
  "import_Image L = Some e \<Longrightarrow>
   main L w = \<lparr>stdout = [], log = [], world = w, exit_status = 1, traceback = Some e\<rparr>"
  by (simp add: main_def finish_def start_def)

lemma main_open_fails:
  "import_Image L = None \<Longrightarrow> Image_open L w src = (Inl e, w1) \<Longrightarrow>
   main L w = handlers e \<lparr>stdout = [], log = [(Open src, Some e)], world = w1\<rparr>"
  by (simp add: main_def try_body_def do_open_def start_def raised_def)

lemma main_convert_fails:
  "import_Image L = None \<Longrightarrow> Image_open L w src = (Inr img, w1) \<Longrightarrow>
   mode img \<noteq> ''RGBA'' \<Longrightarrow> convert L w1 img ''RGBA'' = (Inl e, w2) \<Longrightarrow>
   main L w = handlers e
     \<lparr>stdout = [], log = [(Open src, None), (Convert img ''RGBA'', Some e)], world = w2\<rparr>"
  by (simp add: main_def try_body_def ensure_rgba_def do_open_def do_convert_def start_def
      raised_def)

lemma main_save_fails:
  "import_Image L = None \<Longrightarrow> Image_open L w src = (Inr img, w1) \<Longrightarrow>
   converted_by L img w1 img' w2 \<Longrightarrow> save L w2 img' dst ''PNG'' = (Some e, w3) \<Longrightarrow>
   main L w = handlers e
     \<lparr>stdout = [],
      log = (Open src, None) # conversions img @ [(Save img' dst ''PNG'', Some e)],
      world = w3\<rparr>"
  by (simp add: main_def try_body_def ensure_rgba_def do_open_def do_convert_def do_save_def
      start_def raised_def converted_by_def conversions_def split: if_splits)

lemma main_reopen_fails:
  "import_Image L = None \<Longrightarrow> Image_open L w src = (Inr img, w1) \<Longrightarrow>
   converted_by L img w1 img' w2 \<Longrightarrow> save L w2 img' dst ''PNG'' = (None, w3) \<Longrightarrow>
   Image_open L w3 dst = (Inl e, w4) \<Longrightarrow>
   main L w = handlers e
     \<lparr>stdout = [''Successfully converted to RGBA format''],
      log = (Open src, None) # conversions img @
            [(Save img' dst ''PNG'', None), (Open dst, Some e)],
      world = w4\<rparr>"
  by (simp add: main_def try_body_def ensure_rgba_def do_open_def do_convert_def do_save_def
      start_def raised_def converted_by_def conversions_def print_def split: if_splits)

lemma main_completes:
  "import_Image L = None \<Longrightarrow> Image_open L w src = (Inr img, w1) \<Longrightarrow>
   converted_by L img w1 img' w2 \<Longrightarrow> save L w2 img' dst ''PNG'' = (None, w3) \<Longrightarrow>
   Image_open L w3 dst = (Inr test_img, w4) \<Longrightarrow>
   main L w =
     \<lparr>stdout = [''Successfully converted to RGBA format'',
                ''New image mode: '' @ mode test_img,
                ''New image size: '' @ str_size (size_px test_img)],
      log = (Open src, None) # conversions img @
            [(Save img' dst ''PNG'', None), (Open dst, None)],
      world = w4, exit_status = 0, traceback = None\<rparr>"
  by (simp add: main_def try_body_def ensure_rgba_def do_open_def do_convert_def do_save_def
      start_def raised_def converted_by_def conversions_def print_def finish_def
      split: if_splits)

lemmas run_eqs = main_import_fails main_open_fails main_convert_fails main_save_fails
  main_reopen_fails main_completes

lemma main_cases [case_names import_fails open_fails convert_fails save_fails reopen_fails
    completes]:
  obtains
    (import_fails) e where "import_Image L = Some e"
  | (open_fails) e w1 where "import_Image L = None" "Image_open L w src = (Inl e, w1)"
  | (convert_fails) img w1 e w2 where "import_Image L = None"
      "Image_open L w src = (Inr img, w1)" "mode img \<noteq> ''RGBA''"
      "convert L w1 img ''RGBA'' = (Inl e, w2)"
  | (save_fails) img w1 img' w2 e w3 where "import_Image L = None"
      "Image_open L w src = (Inr img, w1)" "converted_by L img w1 img' w2"
      "save L w2 img' dst ''PNG'' = (Some e, w3)"
  | (reopen_fails) img w1 img' w2 w3 e w4 where "import_Image L = None"
      "Image_open L w src = (Inr img, w1)" "converted_by L img w1 img' w2"
      "save L w2 img' dst ''PNG'' = (None, w3)" "Image_open L w3 dst = (Inl e, w4)"
  | (completes) img w1 img' w2 w3 test_img w4 where "import_Image L = None"
      "Image_open L w src = (Inr img, w1)" "converted_by L img w1 img' w2"
      "save L w2 img' dst ''PNG'' = (None, w3)" "Image_open L w3 dst = (Inr test_img, w4)"
proof (cases "import_Image L")
  case (Some e)
  then show ?thesis by (rule import_fails)
next
  case None
  obtain r w1 where o: "Image_open L w src = (r, w1)" by (cases "Image_open L w src")
  show ?thesis
  proof (cases r)
    case (Inl e)
    with None o show ?thesis by (auto intro: open_fails)
  next
    case (Inr img)
    note img = o [unfolded Inr]
    have "(\<exists>e w2. mode img \<noteq> ''RGBA'' \<and> convert L w1 img ''RGBA'' = (Inl e, w2)) \<or>
          (\<exists>img' w2. converted_by L img w1 img' w2)"
      by (cases "convert L w1 img ''RGBA''"; cases "fst (convert L w1 img ''RGBA'')")
         (auto simp: converted_by_def)
    then show ?thesis
    proof (elim disjE exE conjE)
      fix e w2 assume "mode img \<noteq> ''RGBA''" "convert L w1 img ''RGBA'' = (Inl e, w2)"
      with None img show ?thesis by (rule convert_fails)
    next
      fix img' w2 assume c: "converted_by L img w1 img' w2"
      obtain r3 w3 where s: "save L w2 img' dst ''PNG'' = (r3, w3)"
        by (cases "save L w2 img' dst ''PNG''")
      show ?thesis
      proof (cases r3)
        case (Some e)
        with None img c s show ?thesis by (auto intro: save_fails)
      next
        case None3: None
        obtain r4 w4 where v: "Image_open L w3 dst = (r4, w4)"
          by (cases "Image_open L w3 dst")
        show ?thesis
        proof (cases r4)
          case (Inl e)
          with None img c s None3 v show ?thesis by (auto intro: reopen_fails)
        next
          case (Inr t)
          with None img c s None3 v show ?thesis by (auto intro: completes)
        qed
      qed
    qed
  qed
qed

lemma converted_by_mode:
  "convert_gives_mode L \<Longrightarrow> converted_by L img w1 img' w2 \<Longrightarrow> mode img' = ''RGBA''"
proof (cases "mode img = ''RGBA''")
  case True
  assume "converted_by L img w1 img' w2"
  with True show ?thesis by (simp add: converted_by_def)
next
  case False
  assume "convert_gives_mode L" and "converted_by L img w1 img' w2"
  with False have "convert L w1 img ''RGBA'' = (Inr img', w2)"
    by (simp add: converted_by_def)
  with \<open>convert_gives_mode L\<close> show ?thesis
    unfolding convert_gives_mode_def by blast
qed

lemma converted_by_unique:
  "converted_by L img w1 a b \<Longrightarrow> converted_by L img w1 a' b' \<Longrightarrow> a' = a \<and> b' = b"
  by (cases "mode img = ''RGBA''") (simp_all add: converted_by_def)

lemma converted_by_RGBA:
  "mode img = ''RGBA'' \<Longrightarrow> converted_by L img w1 img w1"
  by (simp add: converted_by_def)

lemma has_alpha_RGBA: "has_alpha ''RGBA''"
  by (simp add: has_alpha_def)

lemma calls_conversions [simp]:
  "filter is_Save (map fst (conversions img)) = []"
  "filter is_Convert (map fst (conversions img)) =
     (if mode img \<noteq> ''RGBA'' then [Convert img ''RGBA''] else [])"
  "written_paths (map fst (conversions img)) = []"
  "read_paths (map fst (conversions img)) = []"
  by (simp_all add: conversions_def)

lemma conversions_ok [simp]:
  "list_all (\<lambda>c. snd c = None) (conversions img)"
  by (simp add: conversions_def)

lemma save_formats_conversions [simp]:
  "save_formats (map fst (conversions img)) = []"
  by (simp add: conversions_def)

lemma save_formats_append [simp]:
  "save_formats (xs @ ys) = save_formats xs @ save_formats ys"
  by (induction xs rule: save_formats.induct) simp_all

lemma written_paths_append [simp]:
  "written_paths (xs @ ys) = written_paths xs @ written_paths ys"
  by (induction xs rule: written_paths.induct) simp_all

lemma read_paths_append [simp]:
  "read_paths (xs @ ys) = read_paths xs @ read_paths ys"
  by (induction xs rule: read_paths.induct) simp_all

lemma distinct_full_trace:
  "distinct (Open src # map fst (conversions img) @ [Save img' dst ''PNG'', Open dst])"
  "distinct (Open src # map fst (conversions img) @ [Save img' dst ''PNG''])"
  using src_neq_dst by (simp_all add: conversions_def)

lemma calls_shape:
  "\<exists>img img'. calls (main L w) \<in> set
     [[], [Open src], [Open src, Convert img ''RGBA''],
      Open src # map fst (conversions img) @ [Save img' dst ''PNG''],
      Open src # map fst (conversions img) @ [Save img' dst ''PNG'', Open dst]]"
proof (cases rule: main_cases [where L = L and w = w])
  case (import_fails e)
  then show ?thesis by (simp add: main_import_fails calls_def)
next
  case (open_fails e w1)
  then show ?thesis by (simp add: main_open_fails calls_def handlers_fields)
next
  case (convert_fails img w1 e w2)
  then have "calls (main L w) = [Open src, Convert img ''RGBA'']"
    by (simp add: main_convert_fails calls_def handlers_fields)
  then show ?thesis by auto
next
  case (save_fails img w1 img' w2 e w3)
  then have "calls (main L w) = Open src # map fst (conversions img) @ [Save img' dst ''PNG'']"
    by (simp add: main_save_fails calls_def handlers_fields)
  then show ?thesis by auto
next
  case (reopen_fails img w1 img' w2 w3 e w4)
  then have "calls (main L w) =
      Open src # map fst (conversions img) @ [Save img' dst ''PNG'', Open dst]"
    by (simp add: main_reopen_fails calls_def handlers_fields)
  then show ?thesis by auto
next
  case (completes img w1 img' w2 w3 test_img w4)
  then have "calls (main L w) =
      Open src # map fst (conversions img) @ [Save img' dst ''PNG'', Open dst]"
    by (simp add: main_completes calls_def)
  then show ?thesis by auto
qed

lemma calls_after_conversion:
  assumes "import_Image L = None" and "Image_open L w src = (Inr img, w1)"
    and "converted_by L img w1 img' w2"
  shows "calls (main L w) = Open src # map fst (conversions img) @ [Save img' dst ''PNG''] \<or>
         calls (main L w) =
           Open src # map fst (conversions img) @ [Save img' dst ''PNG'', Open dst]"
proof -
  obtain r3 w3 where s: "save L w2 img' dst ''PNG'' = (r3, w3)"
    by (cases "save L w2 img' dst ''PNG''")
  show ?thesis
  proof (cases r3)
    case (Some e)
    with assms s show ?thesis
      by (simp add: main_save_fails calls_def handlers_fields)
  next
    case None
    obtain r4 w4 where v: "Image_open L w3 dst = (r4, w4)"
      by (cases "Image_open L w3 dst")
    show ?thesis
    proof (cases r4)
      case (Inl e)
      with assms s None v show ?thesis
        by (simp add: main_reopen_fails calls_def handlers_fields)
    next
      case (Inr t)
      with assms s None v show ?thesis
        by (simp add: main_completes calls_def)
    qed
  qed
qed

lemma saves_after_conversion:
  assumes "import_Image L = None" and "Image_open L w src = (Inr img, w1)"
    and "converted_by L img w1 img' w2"
  shows "filter is_Save (calls (main L w)) = [Save img' dst ''PNG'']"
  using calls_after_conversion [OF assms] by (elim disjE) simp_all

lemma Save_in_calls:
  assumes "import_Image L = None" and "Image_open L w src = (Inr img, w1)"
    and "Save out p f \<in> set (calls (main L w))"
  shows "\<exists>w2. converted_by L img w1 out w2"
proof (cases rule: main_cases [where L = L and w = w])
  case (import_fails e)
  with assms show ?thesis by simp
next
  case (open_fails e w1)
  with assms show ?thesis by simp
next
  case (convert_fails img0 w10 e w2)
  with assms(3) show ?thesis
    by (simp add: main_convert_fails calls_def handlers_fields)
next
  case (save_fails img0 w10 img' w2 e w3)
  with assms(3) have "out = img'"
    by (auto simp: main_save_fails calls_def handlers_fields conversions_def split: if_splits)
  with save_fails assms show ?thesis by auto
next
  case (reopen_fails img0 w10 img' w2 w3 e w4)
  with assms(3) have "out = img'"
    by (auto simp: main_reopen_fails calls_def handlers_fields conversions_def split: if_splits)
  with reopen_fails assms show ?thesis by auto
next
  case (completes img0 w10 img' w2 w3 test_img w4)
  with assms(3) have "out = img'"
    by (auto simp: main_completes calls_def conversions_def split: if_splits)
  with completes assms show ?thesis by auto
qed

subsection \<open>The reference library\<close>

lemma pillow_convert_gives_mode: "convert_gives_mode pillow"
  by (auto simp: convert_gives_mode_def pillow_def pillow_convert_def converted_def
      split: if_splits)

lemma all_opaque_RGB: "list_all (\<lambda>px. alpha px = opaque) (map rgba_of_RGB pxs)"
  by (induction pxs) (simp_all add: alpha_def rgba_of_RGB_def)

lemma rgba_of_L_opaque: "alpha (rgba_of_L px) = opaque"
  by (cases px) (simp_all add: alpha_def)

lemma all_opaque_L: "list_all (\<lambda>px. alpha px = opaque) (map rgba_of_L pxs)"
  by (induction pxs) (simp_all add: rgba_of_L_opaque)

lemma pillow_convert_spec: "convert_spec pillow"
  unfolding convert_spec_def
proof (intro allI impI)
  fix w img m img' w'
  assume c: "convert pillow w img m = (Inr img', w')"
  then have m: "m = ''RGBA''"
    by (auto simp: pillow_def pillow_convert_def split: if_splits)
  from c consider
      "mode img = ''RGBA''" "img' = converted img id"
    | "mode img = ''RGB''" "img' = converted img rgba_of_RGB"
    | "mode img = ''L''" "img' = converted img rgba_of_L"
    | "mode img = ''LA''" "img' = converted img rgba_of_LA"
    by (auto simp: pillow_def pillow_convert_def split: if_splits)
  then show "mode img' = m \<and> size_px img' = size_px img \<and>
        length (pixels img') = length (pixels img) \<and>
        (\<not> has_alpha (mode img) \<and> has_alpha m \<longrightarrow>
           list_all (\<lambda>px. alpha px = opaque) (pixels img'))"
  proof cases
    case 1
    then show ?thesis using m by (simp add: converted_def has_alpha_def)
  next
    case 2
    then show ?thesis using m by (simp add: converted_def all_opaque_RGB)
  next
    case 3
    then show ?thesis using m by (simp add: converted_def all_opaque_L)
  next
    case 4
    then show ?thesis using m by (simp add: converted_def has_alpha_def)
  qed
qed

lemma run_rgb_png:
  "main pillow (dir_with (Encoded rgb_png)) =
     \<lparr>stdout = [''Successfully converted to RGBA format'', ''New image mode: RGBA'',
                ''New image size: (2, 1)''],
      log = [(Open src, None), (Convert rgb_png ''RGBA'', None),
             (Save (converted rgb_png rgba_of_RGB) dst ''PNG'', None), (Open dst, None)],
      world = (dir_with (Encoded rgb_png))
        \<lparr>files := (files (dir_with (Encoded rgb_png)))
           (dst \<mapsto> Encoded ((converted rgb_png rgba_of_RGB)\<lparr>format := Some ''PNG''\<rparr>))\<rparr>,
      exit_status = 0, traceback = None\<rparr>"
proof -
  let ?w = "dir_with (Encoded rgb_png)"
  let ?out = "converted rgb_png rgba_of_RGB"
  let ?w' = "?w\<lparr>files := (files ?w)(dst \<mapsto> Encoded (?out\<lparr>format := Some ''PNG''\<rparr>))\<rparr>"
  have 1: "import_Image pillow = None" by (simp add: pillow_def)
  have 2: "Image_open pillow ?w src = (Inr rgb_png, ?w)"
    by (simp add: pillow_def pillow_open_def dir_with_def)
  have 3: "converted_by pillow rgb_png ?w ?out ?w"
    by (simp add: converted_by_def pillow_def pillow_convert_def rgb_png_def)
  have 4: "save pillow ?w ?out dst ''PNG'' = (None, ?w')"
    by (simp add: pillow_def pillow_save_def dir_with_def)
  have 5: "Image_open pillow ?w' dst = (Inr (?out\<lparr>format := Some ''PNG''\<rparr>), ?w')"
    by (simp add: pillow_def pillow_open_def dir_with_def)
  show ?thesis
    using main_completes [OF 1 2 3 4 5]
    by (simp add: conversions_def rgb_png_def converted_def str_size_def)
qed

lemma run_rgba_png:
  "main pillow (dir_with (Encoded rgba_png)) =
     \<lparr>stdout = [''Successfully converted to RGBA format'', ''New image mode: RGBA'',
                ''New image size: (2, 1)''],
      log = [(Open src, None), (Save rgba_png dst ''PNG'', None), (Open dst, None)],
      world = (dir_with (Encoded rgba_png))
        \<lparr>files := (files (dir_with (Encoded rgba_png)))
           (dst \<mapsto> Encoded (rgba_png\<lparr>format := Some ''PNG''\<rparr>))\<rparr>,
      exit_status = 0, traceback = None\<rparr>"
proof -
  let ?w = "dir_with (Encoded rgba_png)"
  let ?w' = "?w\<lparr>files := (files ?w)(dst \<mapsto> Encoded (rgba_png\<lparr>format := Some ''PNG''\<rparr>))\<rparr>"
  have 1: "import_Image pillow = None" by (simp add: pillow_def)
  have 2: "Image_open pillow ?w src = (Inr rgba_png, ?w)"
    by (simp add: pillow_def pillow_open_def dir_with_def)
  have 3: "converted_by pillow rgba_png ?w rgba_png ?w"
    by (simp add: converted_by_def rgba_png_def)
  have 4: "save pillow ?w rgba_png dst ''PNG'' = (None, ?w')"
    by (simp add: pillow_def pillow_save_def dir_with_def)
  have 5: "Image_open pillow ?w' dst = (Inr (rgba_png\<lparr>format := Some ''PNG''\<rparr>), ?w')"
    by (simp add: pillow_def pillow_open_def dir_with_def)
  show ?thesis
    using main_completes [OF 1 2 3 4 5]
    by (simp add: conversions_def rgba_png_def str_size_def)
qed

lemma run_la_png:
  "main pillow (dir_with (Encoded la_png)) =
     \<lparr>stdout = [''Successfully converted to RGBA format'', ''New image mode: RGBA'',
                ''New image size: (2, 1)''],
      log = [(Open src, None), (Convert la_png ''RGBA'', None),
             (Save (converted la_png rgba_of_LA) dst ''PNG'', None), (Open dst, None)],
      world = (dir_with (Encoded la_png))
        \<lparr>files := (files (dir_with (Encoded la_png)))
           (dst \<mapsto> Encoded ((converted la_png rgba_of_LA)\<lparr>format := Some ''PNG''\<rparr>))\<rparr>,
      exit_status = 0, traceback = None\<rparr>"
proof -
  let ?w = "dir_with (Encoded la_png)"
  let ?out = "converted la_png rgba_of_LA"
  let ?w' = "?w\<lparr>files := (files ?w)(dst \<mapsto> Encoded (?out\<lparr>format := Some ''PNG''\<rparr>))\<rparr>"
  have 1: "import_Image pillow = None" by (simp add: pillow_def)
  have 2: "Image_open pillow ?w src = (Inr la_png, ?w)"
    by (simp add: pillow_def pillow_open_def dir_with_def)
  have 3: "converted_by pillow la_png ?w ?out ?w"
    by (simp add: converted_by_def pillow_def pillow_convert_def la_png_def)
  have 4: "save pillow ?w ?out dst ''PNG'' = (None, ?w')"
    by (simp add: pillow_def pillow_save_def dir_with_def)
  have 5: "Image_open pillow ?w' dst = (Inr (?out\<lparr>format := Some ''PNG''\<rparr>), ?w')"
    by (simp add: pillow_def pillow_open_def dir_with_def)
  show ?thesis
    using main_completes [OF 1 2 3 4 5]
    by (simp add: conversions_def la_png_def converted_def str_size_def)
qed

lemma run_rgb_jpeg:
  "main pillow (dir_with (Encoded rgb_jpeg)) =
     \<lparr>stdout = [''Successfully converted to RGBA format'', ''New image mode: RGBA'',
                ''New image size: (2, 1)''],
      log = [(Open src, None), (Convert rgb_jpeg ''RGBA'', None),
             (Save (converted rgb_jpeg rgba_of_RGB) dst ''PNG'', None), (Open dst, None)],
      world = (dir_with (Encoded rgb_jpeg))
        \<lparr>files := (files (dir_with (Encoded rgb_jpeg)))
           (dst \<mapsto> Encoded ((converted rgb_jpeg rgba_of_RGB)\<lparr>format := Some ''PNG''\<rparr>))\<rparr>,
      exit_status = 0, traceback = None\<rparr>"
proof -
  let ?w = "dir_with (Encoded rgb_jpeg)"
  let ?out = "converted rgb_jpeg rgba_of_RGB"
  let ?w' = "?w\<lparr>files := (files ?w)(dst \<mapsto> Encoded (?out\<lparr>format := Some ''PNG''\<rparr>))\<rparr>"
  have 1: "import_Image pillow = None" by (simp add: pillow_def)
  have 2: "Image_open pillow ?w src = (Inr rgb_jpeg, ?w)"
    by (simp add: pillow_def pillow_open_def dir_with_def)
  have 3: "converted_by pillow rgb_jpeg ?w ?out ?w"
    by (simp add: converted_by_def pillow_def pillow_convert_def rgb_jpeg_def)
  have 4: "save pillow ?w ?out dst ''PNG'' = (None, ?w')"
    by (simp add: pillow_def pillow_save_def dir_with_def)
  have 5: "Image_open pillow ?w' dst = (Inr (?out\<lparr>format := Some ''PNG''\<rparr>), ?w')"
    by (simp add: pillow_def pillow_open_def dir_with_def)
  show ?thesis
    using main_completes [OF 1 2 3 4 5]
    by (simp add: conversions_def rgb_jpeg_def converted_def str_size_def)
qed

lemma run_no_read_back:
  "main pillow (dir_no_read_back (Encoded rgb_png)) =
     \<lparr>stdout = [''Successfully converted to RGBA format'',
                ''Error: [Errno 13] Permission denied: '' @ quoted ''app_icon_rgba.png''],
      log = [(Open src, None), (Convert rgb_png ''RGBA'', None),
             (Save (converted rgb_png rgba_of_RGB) dst ''PNG'', None),
             (Open dst,
              Some (OtherException (''[Errno 13] Permission denied: '' @ quoted dst)))],
      world = (dir_no_read_back (Encoded rgb_png))
        \<lparr>files := (files (dir_no_read_back (Encoded rgb_png)))
           (dst \<mapsto> Encoded ((converted rgb_png rgba_of_RGB)\<lparr>format := Some ''PNG''\<rparr>))\<rparr>,
      exit_status = 1, traceback = None\<rparr>"
proof -
  let ?w = "dir_no_read_back (Encoded rgb_png)"
  let ?out = "converted rgb_png rgba_of_RGB"
  let ?w' = "?w\<lparr>files := (files ?w)(dst \<mapsto> Encoded (?out\<lparr>format := Some ''PNG''\<rparr>))\<rparr>"
  let ?e = "OtherException (''[Errno 13] Permission denied: '' @ quoted dst)"
  have 1: "import_Image pillow = None" by (simp add: pillow_def)
  have 2: "Image_open pillow ?w src = (Inr rgb_png, ?w)"
    by (simp add: pillow_def pillow_open_def dir_no_read_back_def dir_with_def)
  have 3: "converted_by pillow rgb_png ?w ?out ?w"
    by (simp add: converted_by_def pillow_def pillow_convert_def rgb_png_def)
  have 4: "save pillow ?w ?out dst ''PNG'' = (None, ?w')"
    by (simp add: pillow_def pillow_save_def dir_no_read_back_def dir_with_def)
  have 5: "Image_open pillow ?w' dst = (Inl ?e, ?w')"
    by (simp add: pillow_def pillow_open_def dir_no_read_back_def dir_with_def
        src_neq_dst [symmetric])
  show ?thesis
    using main_reopen_fails [OF 1 2 3 4 5]
    by (simp add: conversions_def rgb_png_def handlers_def finish_def print_def dst_def)
qed

subsection \<open>The claims\<close>

text \<open>
  C1. Every run that ends with exit status 0 has made one save, to
  \<^verbatim>\<open>app_icon_rgba.png\<close> as PNG, and the raster it saved has mode \<^verbatim>\<open>RGBA\<close>, which
  carries alpha. The library is any library whose conversion returns the mode it was
  asked for.
\<close>

theorem saved_image_has_alpha:
  assumes contract: "convert_gives_mode L" and ok: "exit_status (main L w) = 0"
  shows "\<exists>img. filter is_Save (calls (main L w)) = [Save img dst ''PNG''] \<and>
           mode img = ''RGBA'' \<and> has_alpha (mode img)"
proof (cases rule: main_cases [where L = L and w = w])
  case (completes img w1 img' w2 w3 test_img w4)
  then have "filter is_Save (calls (main L w)) = [Save img' dst ''PNG'']"
    by (simp add: main_completes calls_def)
  moreover have "mode img' = ''RGBA''"
    using contract completes(3) by (rule converted_by_mode)
  ultimately show ?thesis by (simp add: has_alpha_RGBA)
qed (use ok in \<open>simp_all add: run_eqs handlers_fields\<close>)

theorem saved_image_has_alpha_witness:
  "exit_status (main pillow (dir_with (Encoded rgb_png))) = 0 \<and>
   (\<exists>img. filter is_Save (calls (main pillow (dir_with (Encoded rgb_png))))
            = [Save img dst ''PNG''] \<and> mode img = ''RGBA'' \<and> has_alpha (mode img))"
proof -
  have e: "exit_status (main pillow (dir_with (Encoded rgb_png))) = 0"
    by (simp add: run_rgb_png)
  from saved_image_has_alpha [OF pillow_convert_gives_mode e] e show ?thesis by simp
qed

text \<open>
  C2. Without Pillow, line 3 raises before the \<^verbatim>\<open>try\<close> is entered: the run prints
  nothing on standard output (the install guidance of line 24 is never printed), the
  interpreter reports the uncaught exception, the exit status is 1 and no file is
  opened or saved. Evaluated in a directory that holds a proper \<^verbatim>\<open>app_icon.png\<close>.
\<close>

theorem missing_pillow_run:
  "stdout (main no_pillow (dir_with (Encoded rgb_png))) = [] \<and>
   traceback (main no_pillow (dir_with (Encoded rgb_png))) =
     Some (ImportError (''No module named '' @ quoted ''PIL'')) \<and>
   exit_status (main no_pillow (dir_with (Encoded rgb_png))) = 1 \<and>
   calls (main no_pillow (dir_with (Encoded rgb_png))) = []"
proof -
  have "import_Image no_pillow = Some (ImportError (''No module named '' @ quoted ''PIL''))"
    by (simp add: no_pillow_def)
  then show ?thesis by (simp add: main_import_fails calls_def)
qed

text \<open>
  C3, as stated, fails on a greyscale raster with alpha (mode \<^verbatim>\<open>LA\<close>): its mode
  carries alpha, and the run converts it all the same.
\<close>

theorem alpha_mode_converted_counterexample:
  "fst (Image_open pillow (dir_with (Encoded la_png)) src) = Inr la_png \<and>
   has_alpha (mode la_png) \<and>
   filter is_Convert (calls (main pillow (dir_with (Encoded la_png))))
     = [Convert la_png ''RGBA'']"
proof -
  have "fst (Image_open pillow (dir_with (Encoded la_png)) src) = Inr la_png"
    by (simp add: pillow_def pillow_open_def dir_with_def)
  moreover have "has_alpha (mode la_png)"
    by (simp add: la_png_def has_alpha_def)
  moreover have "filter is_Convert (calls (main pillow (dir_with (Encoded la_png))))
     = [Convert la_png ''RGBA'']"
    by (simp add: run_la_png calls_def)
  ultimately show ?thesis by simp
qed

text \<open>
  C3, amended. For every decoded source raster the conversion is skipped if and only
  if its mode is \<^verbatim>\<open>RGBA\<close>: then the raster itself is what the run hands to the
  encoder. Otherwise the run asks once for a conversion of that raster to \<^verbatim>\<open>RGBA\<close>,
  a mode that carries alpha, and what it hands to the encoder is the raster the
  conversion returned; when the conversion raises, nothing is handed to the encoder.
\<close>

theorem conversion_skipped_iff_RGBA:
  assumes lib: "import_Image L = None" and opened: "Image_open L w src = (Inr img, w1)"
  shows "(filter is_Convert (calls (main L w)) = [] \<longleftrightarrow> mode img = ''RGBA'') \<and>
         (mode img = ''RGBA'' \<longrightarrow>
            take 2 (calls (main L w)) = [Open src, Save img dst ''PNG''] \<and>
            filter is_Save (calls (main L w)) = [Save img dst ''PNG'']) \<and>
         (mode img \<noteq> ''RGBA'' \<longrightarrow>
            take 2 (calls (main L w)) = [Open src, Convert img ''RGBA''] \<and>
            filter is_Convert (calls (main L w)) = [Convert img ''RGBA''] \<and>
            has_alpha ''RGBA'' \<and>
            (\<forall>img' w2. convert L w1 img ''RGBA'' = (Inr img', w2) \<longrightarrow>
               filter is_Save (calls (main L w)) = [Save img' dst ''PNG'']) \<and>
            (\<forall>e w2. convert L w1 img ''RGBA'' = (Inl e, w2) \<longrightarrow>
               filter is_Save (calls (main L w)) = []))"
proof (cases "mode img = ''RGBA''")
  case True
  then have c: "converted_by L img w1 img w1" by (rule converted_by_RGBA)
  have "filter is_Save (calls (main L w)) = [Save img dst ''PNG'']"
    using lib opened c by (rule saves_after_conversion)
  moreover from True have "conversions img = []" by (simp add: conversions_def)
  with calls_after_conversion [OF lib opened c]
  have "take 2 (calls (main L w)) = [Open src, Save img dst ''PNG''] \<and>
        filter is_Convert (calls (main L w)) = []"
    by (elim disjE) simp_all
  ultimately show ?thesis using True by simp
next
  case False
  obtain r w2 where conv: "convert L w1 img ''RGBA'' = (r, w2)"
    by (cases "convert L w1 img ''RGBA''")
  show ?thesis
  proof (cases r)
    case (Inl e)
    with lib opened False conv
    have "calls (main L w) = [Open src, Convert img ''RGBA'']"
      by (simp add: main_convert_fails calls_def handlers_fields)
    with False conv Inl show ?thesis by (simp add: has_alpha_RGBA)
  next
    case (Inr img')
    with False conv have c: "converted_by L img w1 img' w2"
      by (simp add: converted_by_def)
    have "filter is_Save (calls (main L w)) = [Save img' dst ''PNG'']"
      using lib opened c by (rule saves_after_conversion)
    moreover from False have "conversions img = [(Convert img ''RGBA'', None)]"
      by (simp add: conversions_def)
    with calls_after_conversion [OF lib opened c]
    have "take 2 (calls (main L w)) = [Open src, Convert img ''RGBA''] \<and>
          filter is_Convert (calls (main L w)) = [Convert img ''RGBA'']"
      by (elim disjE) simp_all
    ultimately show ?thesis using False conv Inr by (simp add: has_alpha_RGBA)
  qed
qed

theorem conversion_skipped_iff_RGBA_witness:
  "import_Image pillow = None \<and>
   Image_open pillow (dir_with (Encoded rgba_png)) src =
     (Inr rgba_png, dir_with (Encoded rgba_png)) \<and>
   mode rgba_png = ''RGBA'' \<and>
   filter is_Convert (calls (main pillow (dir_with (Encoded rgba_png)))) = [] \<and>
   filter is_Save (calls (main pillow (dir_with (Encoded rgba_png))))
     = [Save rgba_png dst ''PNG''] \<and>
   Image_open pillow (dir_with (Encoded rgb_png)) src =
     (Inr rgb_png, dir_with (Encoded rgb_png)) \<and>
   mode rgb_png \<noteq> ''RGBA'' \<and>
   convert pillow (dir_with (Encoded rgb_png)) rgb_png ''RGBA'' =
     (Inr (converted rgb_png rgba_of_RGB), dir_with (Encoded rgb_png)) \<and>
   filter is_Convert (calls (main pillow (dir_with (Encoded rgb_png))))
     = [Convert rgb_png ''RGBA''] \<and>
   filter is_Save (calls (main pillow (dir_with (Encoded rgb_png))))
     = [Save (converted rgb_png rgba_of_RGB) dst ''PNG''] \<and>
   converted rgb_png rgba_of_RGB \<noteq> rgb_png"
proof -
  have 1: "import_Image pillow = None" by (simp add: pillow_def)
  have 2: "Image_open pillow (dir_with (Encoded rgba_png)) src =
     (Inr rgba_png, dir_with (Encoded rgba_png))"
    by (simp add: pillow_def pillow_open_def dir_with_def)
  have 3: "mode rgba_png = ''RGBA''" by (simp add: rgba_png_def)
  have 4: "Image_open pillow (dir_with (Encoded rgb_png)) src =
     (Inr rgb_png, dir_with (Encoded rgb_png))"
    by (simp add: pillow_def pillow_open_def dir_with_def)
  have 5: "mode rgb_png \<noteq> ''RGBA''" by (simp add: rgb_png_def)
  have 6: "convert pillow (dir_with (Encoded rgb_png)) rgb_png ''RGBA'' =
     (Inr (converted rgb_png rgba_of_RGB), dir_with (Encoded rgb_png))"
    by (simp add: pillow_def pillow_convert_def rgb_png_def)
  have 7: "converted rgb_png rgba_of_RGB \<noteq> rgb_png"
    by (simp add: converted_def rgb_png_def)
  from conversion_skipped_iff_RGBA [OF 1 2] conversion_skipped_iff_RGBA [OF 1 4]
    1 2 3 4 5 6 7
  show ?thesis by simp
qed

text \<open>
  C4, as stated, fails on a JPEG file stored as \<^verbatim>\<open>app_icon.png\<close>: Pillow decodes it
  (it tells the format from the content), and the run encodes PNG.
\<close>

theorem same_format_counterexample:
  "fst (Image_open pillow (dir_with (Encoded rgb_jpeg)) src) = Inr rgb_jpeg \<and>
   format rgb_jpeg = Some ''JPEG'' \<and>
   exit_status (main pillow (dir_with (Encoded rgb_jpeg))) = 0 \<and>
   filter is_Save (calls (main pillow (dir_with (Encoded rgb_jpeg))))
     = [Save (converted rgb_jpeg rgba_of_RGB) dst ''PNG''] \<and>
   ''PNG'' \<noteq> ''JPEG''"
proof -
  have "fst (Image_open pillow (dir_with (Encoded rgb_jpeg)) src) = Inr rgb_jpeg"
    by (simp add: pillow_def pillow_open_def dir_with_def)
  moreover have "format rgb_jpeg = Some ''JPEG''"
    by (simp add: rgb_jpeg_def)
  moreover have "filter is_Save (calls (main pillow (dir_with (Encoded rgb_jpeg))))
     = [Save (converted rgb_jpeg rgba_of_RGB) dst ''PNG'']"
    by (simp add: run_rgb_jpeg calls_def)
  moreover have "exit_status (main pillow (dir_with (Encoded rgb_jpeg))) = 0"
    by (simp add: run_rgb_jpeg)
  ultimately show ?thesis by simp
qed

text \<open>
  C4, amended. Whenever the source is decoded and lines 11-12 leave a raster, the run
  makes one save, of that raster, to \<^verbatim>\<open>app_icon_rgba.png\<close>, and the format is PNG
  whatever the source's was: it is the source's format exactly when the source is a
  PNG file.
\<close>

theorem saved_as_PNG:
  assumes "import_Image L = None" and "Image_open L w src = (Inr img, w1)"
    and "converted_by L img w1 img' w2"
  shows "filter is_Save (calls (main L w)) = [Save img' dst ''PNG''] \<and>
         save_formats (calls (main L w)) = [''PNG''] \<and>
         (list_all (\<lambda>f. format img = Some f) (save_formats (calls (main L w)))
            \<longleftrightarrow> format img = Some ''PNG'')"
  using calls_after_conversion [OF assms] by (elim disjE) simp_all

theorem saved_as_PNG_witness:
  "import_Image pillow = None \<and>
   Image_open pillow (dir_with (Encoded rgb_png)) src =
     (Inr rgb_png, dir_with (Encoded rgb_png)) \<and>
   converted_by pillow rgb_png (dir_with (Encoded rgb_png))
     (converted rgb_png rgba_of_RGB) (dir_with (Encoded rgb_png)) \<and>
   filter is_Save (calls (main pillow (dir_with (Encoded rgb_png))))
     = [Save (converted rgb_png rgba_of_RGB) dst ''PNG''] \<and>
   save_formats (calls (main pillow (dir_with (Encoded rgb_png)))) = [''PNG''] \<and>
   format rgb_png = Some ''PNG''"
proof -
  let ?w = "dir_with (Encoded rgb_png)"
  have 1: "import_Image pillow = None" by (simp add: pillow_def)
  have 2: "Image_open pillow ?w src = (Inr rgb_png, ?w)"
    by (simp add: pillow_def pillow_open_def dir_with_def)
  have 3: "converted_by pillow rgb_png ?w (converted rgb_png rgba_of_RGB) ?w"
    by (simp add: converted_by_def pillow_def pillow_convert_def rgb_png_def)
  have 4: "format rgb_png = Some ''PNG''" by (simp add: rgb_png_def)
  from saved_as_PNG [OF 1 2 3] 1 2 3 4 show ?thesis by simp
qed

text \<open>
  C5. If \<^verbatim>\<open>app_icon.png\<close> does not exist (opening it raises
  \<^verbatim>\<open>FileNotFoundError\<close>), the run prints \<^verbatim>\<open>Error:\<close> and the description of the
  failure, exits with status 1, has made no call but that one open, so has saved
  nothing, and leaves the world as the failed open left it.
\<close>

theorem missing_source_reported:
  assumes "import_Image L = None"
    and "Image_open L w src = (Inl (FileNotFoundError m), w1)"
  shows "stdout (main L w) = [''Error: '' @ m] \<and> exit_status (main L w) = 1 \<and>
         calls (main L w) = [Open src] \<and> written_paths (calls (main L w)) = [] \<and>
         world (main L w) = w1"
  using assms by (simp add: main_open_fails handlers_fields calls_def)

theorem missing_source_reported_witness:
  "import_Image pillow = None \<and>
   files empty_dir src = None \<and>
   stdout (main pillow empty_dir) =
     [''Error: [Errno 2] No such file or directory: '' @ quoted ''app_icon.png''] \<and>
   exit_status (main pillow empty_dir) = 1 \<and>
   calls (main pillow empty_dir) = [Open src] \<and>
   written_paths (calls (main pillow empty_dir)) = [] \<and>
   world (main pillow empty_dir) = empty_dir \<and>
   files (world (main pillow empty_dir)) dst = None"
proof -
  have 1: "import_Image pillow = None" by (simp add: pillow_def)
  have 2: "Image_open pillow empty_dir src =
     (Inl (FileNotFoundError (''[Errno 2] No such file or directory: '' @ quoted src)),
      empty_dir)"
    by (simp add: pillow_def pillow_open_def empty_dir_def)
  have 3: "files empty_dir src = None" "files empty_dir dst = None"
    by (simp_all add: empty_dir_def)
  from missing_source_reported [OF 1 2] 1 3 show ?thesis by (simp add: src_def)
qed

text \<open>
  C6. With a library whose conversion is as the spec describes it: when the source
  decodes to a raster whose mode carries no alpha, every raster the run hands to the
  encoder has a mode that carries alpha, the size and the number of pixels of the
  input, and full opacity in every pixel.
\<close>

theorem conversion_adds_opaque_alpha:
  assumes spec: "convert_spec L"
    and "import_Image L = None" and "Image_open L w src = (Inr img, w1)"
    and no_alpha: "\<not> has_alpha (mode img)"
    and out: "Save out p f \<in> set (calls (main L w))"
  shows "has_alpha (mode out) \<and> size_px out = size_px img \<and>
         length (pixels out) = length (pixels img) \<and>
         list_all (\<lambda>px. alpha px = opaque) (pixels out)"
proof -
  from Save_in_calls [OF assms(2,3) out] obtain w2 where "converted_by L img w1 out w2"
    by (rule exE)
  moreover from no_alpha have "mode img \<noteq> ''RGBA''"
    by (auto simp: has_alpha_def)
  ultimately have c: "convert L w1 img ''RGBA'' = (Inr out, w2)"
    by (simp add: converted_by_def)
  with spec have "mode out = ''RGBA'' \<and> size_px out = size_px img \<and>
        length (pixels out) = length (pixels img) \<and>
        (\<not> has_alpha (mode img) \<and> has_alpha ''RGBA'' \<longrightarrow>
           list_all (\<lambda>px. alpha px = opaque) (pixels out))"
    unfolding convert_spec_def by blast
  with no_alpha show ?thesis by (simp add: has_alpha_RGBA)
qed

theorem conversion_adds_opaque_alpha_witness:
  "import_Image pillow = None \<and>
   Image_open pillow (dir_with (Encoded rgb_png)) src =
     (Inr rgb_png, dir_with (Encoded rgb_png)) \<and>
   \<not> has_alpha (mode rgb_png) \<and>
   Save (converted rgb_png rgba_of_RGB) dst ''PNG''
     \<in> set (calls (main pillow (dir_with (Encoded rgb_png)))) \<and>
   has_alpha (mode (converted rgb_png rgba_of_RGB)) \<and>
   size_px (converted rgb_png rgba_of_RGB) = size_px rgb_png \<and>
   pixels (converted rgb_png rgba_of_RGB) = [[10, 20, 30, 255], [40, 50, 60, 255]] \<and>
   list_all (\<lambda>px. alpha px = opaque) (pixels (converted rgb_png rgba_of_RGB))"
proof -
  let ?w = "dir_with (Encoded rgb_png)"
  have 1: "import_Image pillow = None" by (simp add: pillow_def)
  have 2: "Image_open pillow ?w src = (Inr rgb_png, ?w)"
    by (simp add: pillow_def pillow_open_def dir_with_def)
  have 3: "\<not> has_alpha (mode rgb_png)" by (simp add: rgb_png_def has_alpha_def)
  have 4: "Save (converted rgb_png rgba_of_RGB) dst ''PNG'' \<in> set (calls (main pillow ?w))"
    by (simp add: run_rgb_png calls_def)
  have 5: "pixels (converted rgb_png rgba_of_RGB) = [[10, 20, 30, 255], [40, 50, 60, 255]]"
    by (simp add: converted_def rgb_png_def rgba_of_RGB_def opaque_def)
  from conversion_adds_opaque_alpha [OF pillow_convert_spec 1 2 3 4] 1 2 3 4 5
  show ?thesis by simp
qed

text \<open>
  C7, as stated, fails on the same greyscale raster with alpha: it already includes an
  alpha channel, yet the raster that is saved holds four bands per pixel where the
  input held two.
\<close>

theorem alpha_input_changed_counterexample:
  "fst (Image_open pillow (dir_with (Encoded la_png)) src) = Inr la_png \<and>
   has_alpha (mode la_png) \<and>
   filter is_Save (calls (main pillow (dir_with (Encoded la_png))))
     = [Save (converted la_png rgba_of_LA) dst ''PNG''] \<and>
   pixels la_png = [[128, 64], [200, 255]] \<and>
   pixels (converted la_png rgba_of_LA) = [[128, 128, 128, 64], [200, 200, 200, 255]] \<and>
   pixels (converted la_png rgba_of_LA) \<noteq> pixels la_png"
proof -
  have "fst (Image_open pillow (dir_with (Encoded la_png)) src) = Inr la_png"
    by (simp add: pillow_def pillow_open_def dir_with_def)
  moreover have "has_alpha (mode la_png)"
    by (simp add: la_png_def has_alpha_def)
  moreover have "filter is_Save (calls (main pillow (dir_with (Encoded la_png))))
     = [Save (converted la_png rgba_of_LA) dst ''PNG'']"
    by (simp add: run_la_png calls_def)
  moreover have "pixels la_png = [[128, 64], [200, 255]]"
    by (simp add: la_png_def)
  moreover have
    "pixels (converted la_png rgba_of_LA) = [[128, 128, 128, 64], [200, 200, 200, 255]]"
    by (simp add: converted_def la_png_def)
  ultimately show ?thesis by simp
qed

text \<open>
  C7, amended. When the source decodes to a raster of mode \<^verbatim>\<open>RGBA\<close>, the one raster
  the run saves is that raster itself, so its pixel data is the input's. And for a
  source of any mode (with a library whose conversion returns the mode it was asked
  for, when the mode is not \<^verbatim>\<open>RGBA\<close>): the raster \<open>out\<close> that the run saves has mode
  \<^verbatim>\<open>RGBA\<close>, lines 11-12 return it as it is, and a second run whose source decodes
  to a raster of that mode saves that raster unchanged.
\<close>

theorem RGBA_unchanged_rerun_idempotent:
  assumes lib: "import_Image L = None"
    and first: "Image_open L w src = (Inr img, w1)"
    and mode_ok: "mode img = ''RGBA'' \<or> convert_gives_mode L"
    and out: "Save out dst ''PNG'' \<in> set (calls (main L w))"
    and second: "Image_open L w' src = (Inr out2, w1')" "mode out2 = mode out"
  shows "filter is_Save (calls (main L w)) = [Save out dst ''PNG''] \<and>
         (mode img = ''RGBA'' \<longrightarrow> out = img \<and> pixels out = pixels img) \<and>
         mode out = ''RGBA'' \<and>
         filter is_Save (calls (main L w')) = [Save out2 dst ''PNG''] \<and>
         ensure_rgba L out s = (Inr out, s)"
proof -
  from Save_in_calls [OF lib first out] obtain w2 where c: "converted_by L img w1 out w2"
    by (rule exE)
  have 1: "filter is_Save (calls (main L w)) = [Save out dst ''PNG'']"
    using lib first c by (rule saves_after_conversion)
  have 2: "mode img = ''RGBA'' \<longrightarrow> out = img \<and> pixels out = pixels img"
    using c by (simp add: converted_by_def)
  have 3: "mode out = ''RGBA''"
  proof (cases "mode img = ''RGBA''")
    case True
    with 2 show ?thesis by simp
  next
    case False
    with mode_ok have "convert_gives_mode L" by simp
    then show ?thesis using c by (rule converted_by_mode)
  qed
  with second(2) have "converted_by L out2 w1' out2 w1'"
    by (simp add: converted_by_RGBA)
  with lib second(1) have 4: "filter is_Save (calls (main L w')) = [Save out2 dst ''PNG'']"
    by (rule saves_after_conversion)
  from 3 have "ensure_rgba L out s = (Inr out, s)"
    by (simp add: ensure_rgba_def)
  with 1 2 3 4 show ?thesis by simp
qed

theorem RGBA_unchanged_rerun_idempotent_witness:
  "import_Image pillow = None \<and>
   Image_open pillow (dir_with (Encoded rgba_png)) src =
     (Inr rgba_png, dir_with (Encoded rgba_png)) \<and>
   mode rgba_png = ''RGBA'' \<and>
   files (world (main pillow (dir_with (Encoded rgba_png)))) dst = Some (Encoded rgba_png) \<and>
   filter is_Save (calls (main pillow (dir_with (Encoded rgba_png))))
     = [Save rgba_png dst ''PNG''] \<and>
   pixels rgba_png = [[10, 20, 30, 128], [40, 50, 60, 0]] \<and>
   Image_open pillow (dir_with (Encoded la_png)) src =
     (Inr la_png, dir_with (Encoded la_png)) \<and>
   mode la_png \<noteq> ''RGBA'' \<and> convert_gives_mode pillow \<and>
   filter is_Save (calls (main pillow (dir_with (Encoded la_png))))
     = [Save (converted la_png rgba_of_LA) dst ''PNG''] \<and>
   files (world (main pillow (dir_with (Encoded la_png)))) dst =
     Some (Encoded ((converted la_png rgba_of_LA)\<lparr>format := Some ''PNG''\<rparr>)) \<and>
   filter is_Save (calls (main pillow
       (dir_with (Encoded ((converted la_png rgba_of_LA)\<lparr>format := Some ''PNG''\<rparr>)))))
     = [Save ((converted la_png rgba_of_LA)\<lparr>format := Some ''PNG''\<rparr>) dst ''PNG''] \<and>
   pixels ((converted la_png rgba_of_LA)\<lparr>format := Some ''PNG''\<rparr>) =
     pixels (converted la_png rgba_of_LA)"
proof -
  let ?w = "dir_with (Encoded rgba_png)"
  let ?v = "dir_with (Encoded la_png)"
  let ?out = "converted la_png rgba_of_LA"
  let ?out2 = "?out\<lparr>format := Some ''PNG''\<rparr>"
  have 1: "import_Image pillow = None" by (simp add: pillow_def)
  have 2: "Image_open pillow ?w src = (Inr rgba_png, ?w)"
    by (simp add: pillow_def pillow_open_def dir_with_def)
  have 3: "mode rgba_png = ''RGBA''" by (simp add: rgba_png_def)
  have 4: "Save rgba_png dst ''PNG'' \<in> set (calls (main pillow ?w))"
    by (simp add: run_rgba_png calls_def)
  have 5: "files (world (main pillow ?w)) dst = Some (Encoded rgba_png)"
    unfolding run_rgba_png by (simp add: rgba_png_def)
  have 6: "pixels rgba_png = [[10, 20, 30, 128], [40, 50, 60, 0]]"
    by (simp add: rgba_png_def)
  have 7: "Image_open pillow ?v src = (Inr la_png, ?v)"
    by (simp add: pillow_def pillow_open_def dir_with_def)
  have 8: "mode la_png \<noteq> ''RGBA''" by (simp add: la_png_def)
  have 9: "Save ?out dst ''PNG'' \<in> set (calls (main pillow ?v))"
    by (simp add: run_la_png calls_def)
  have 10: "files (world (main pillow ?v)) dst = Some (Encoded ?out2)"
    unfolding run_la_png by simp
  have 11: "Image_open pillow (dir_with (Encoded ?out2)) src =
      (Inr ?out2, dir_with (Encoded ?out2))"
    by (simp add: pillow_def pillow_open_def dir_with_def)
  have 12: "mode ?out2 = mode ?out" by simp
  note a = RGBA_unchanged_rerun_idempotent [OF 1 2 disjI1 [OF 3] 4 2 refl]
  note b = RGBA_unchanged_rerun_idempotent [OF 1 7 disjI2 [OF pillow_convert_gives_mode] 9 11 12]
  from a b 1 2 3 5 6 7 8 10 pillow_convert_gives_mode show ?thesis by simp
qed

text \<open>
  C8. The exit status is 0 exactly when the import succeeds and open, conversion
  (where the mode asks for one), save and re-open all return; it is 1 otherwise, which
  is exactly when the import raises or the last library call raised. No call comes
  after a call that raised, and no call is made twice.
\<close>

theorem exit_status_characterised:
  "(exit_status (main L w) = 0 \<longleftrightarrow>
      import_Image L = None \<and>
      (\<exists>img w1 img' w2 w3 t w4.
         Image_open L w src = (Inr img, w1) \<and> converted_by L img w1 img' w2 \<and>
         save L w2 img' dst ''PNG'' = (None, w3) \<and> Image_open L w3 dst = (Inr t, w4))) \<and>
   (exit_status (main L w) = 0 \<or> exit_status (main L w) = 1) \<and>
   (exit_status (main L w) = 1 \<longleftrightarrow>
      (\<exists>e. import_Image L = Some e) \<or>
      (\<exists>c e. log (main L w) \<noteq> [] \<and> last (log (main L w)) = (c, Some e))) \<and>
   list_all (\<lambda>c. snd c = None) (butlast (log (main L w))) \<and>
   distinct (calls (main L w))"
proof (cases rule: main_cases [where L = L and w = w])
  case (import_fails e)
  then show ?thesis by (simp add: main_import_fails calls_def)
next
  case (open_fails e w1)
  then show ?thesis by (simp add: main_open_fails calls_def handlers_fields)
next
  case (convert_fails img w1 e w2)
  then have "\<not> (\<exists>img' w2. converted_by L img w1 img' w2)"
    by (simp add: converted_by_def)
  with convert_fails show ?thesis
    by (simp add: main_convert_fails calls_def handlers_fields)
next
  case (save_fails img w1 img' w2 e w3)
  have "\<not> (\<exists>a b w3. converted_by L img w1 a b \<and> save L b a dst ''PNG'' = (None, w3))"
    using converted_by_unique [OF save_fails(3)] save_fails(4) by auto
  with save_fails show ?thesis
    using distinct_full_trace(2) [of img img']
    by (simp add: main_save_fails calls_def handlers_fields butlast_append)
next
  case (reopen_fails img w1 img' w2 w3 e w4)
  have "\<not> (\<exists>a b c t w4. converted_by L img w1 a b \<and> save L b a dst ''PNG'' = (None, c) \<and>
            Image_open L c dst = (Inr t, w4))"
    using converted_by_unique [OF reopen_fails(3)] reopen_fails(4,5) by auto
  with reopen_fails show ?thesis
    using distinct_full_trace(1) [of img img']
    by (simp add: main_reopen_fails calls_def handlers_fields butlast_append)
next
  case (completes img w1 img' w2 w3 test_img w4)
  then have "\<exists>img w1 img' w2 w3 t w4.
         Image_open L w src = (Inr img, w1) \<and> converted_by L img w1 img' w2 \<and>
         save L w2 img' dst ''PNG'' = (None, w3) \<and> Image_open L w3 dst = (Inr t, w4)"
    by blast
  with completes show ?thesis
    using distinct_full_trace(1) [of img img']
    by (simp add: main_completes calls_def butlast_append)
qed

theorem exit_status_characterised_witness:
  "exit_status (main pillow (dir_with (Encoded rgb_png))) = 0 \<and>
   exit_status (main pillow (dir_no_read_back (Encoded rgb_png))) = 1 \<and>
   exit_status (main pillow empty_dir) = 1 \<and>
   exit_status (main no_pillow (dir_with (Encoded rgb_png))) = 1 \<and>
   distinct (calls (main pillow (dir_with (Encoded rgb_png)))) \<and>
   list_all (\<lambda>c. snd c = None)
     (butlast (log (main pillow (dir_no_read_back (Encoded rgb_png)))))"
proof -
  have a: "exit_status (main pillow (dir_with (Encoded rgb_png))) = 0"
    by (simp add: run_rgb_png)
  have b: "exit_status (main pillow (dir_no_read_back (Encoded rgb_png))) = 1"
    by (simp add: run_no_read_back)
  have "\<exists>e w1. Image_open pillow empty_dir src = (Inl e, w1)"
    by (simp add: pillow_def pillow_open_def empty_dir_def)
  with exit_status_characterised [of pillow empty_dir, THEN conjunct1]
  have "exit_status (main pillow empty_dir) \<noteq> 0"
    by auto
  with exit_status_characterised [of pillow empty_dir, THEN conjunct2, THEN conjunct1]
  have c: "exit_status (main pillow empty_dir) = 1"
    by simp
  have "import_Image no_pillow \<noteq> None"
    by (simp add: no_pillow_def)
  with exit_status_characterised [of no_pillow "dir_with (Encoded rgb_png)",
      THEN conjunct1]
  have "exit_status (main no_pillow (dir_with (Encoded rgb_png))) \<noteq> 0"
    by simp
  with exit_status_characterised [of no_pillow "dir_with (Encoded rgb_png)",
      THEN conjunct2, THEN conjunct1]
  have d: "exit_status (main no_pillow (dir_with (Encoded rgb_png))) = 1"
    by simp
  from a b c d
    exit_status_characterised [of pillow "dir_with (Encoded rgb_png)"]
    exit_status_characterised [of pillow "dir_no_read_back (Encoded rgb_png)"]
  show ?thesis by simp
qed

text \<open>
  C9. When the save returns and the re-open of the saved file raises, standard output
  holds the success line followed by the report of the failure, and the exit status
  is 1. The witness is such a run: the saved file is there, and cannot be read back.
\<close>

theorem success_line_then_failure:
  assumes "import_Image L = None" and "Image_open L w src = (Inr img, w1)"
    and "converted_by L img w1 img' w2"
    and "save L w2 img' dst ''PNG'' = (None, w3)"
    and "Image_open L w3 dst = (Inl e, w4)"
  shows "stdout (main L w) =
           [''Successfully converted to RGBA format'',
            if is_ImportError e
            then ''PIL not available - please install Pillow: pip install Pillow''
            else ''Error: '' @ str_exn e] \<and>
         exit_status (main L w) = 1 \<and>
         log (main L w) = (Open src, None) # conversions img @
           [(Save img' dst ''PNG'', None), (Open dst, Some e)] \<and>
         world (main L w) = w4"
  using assms by (simp add: main_reopen_fails handlers_fields)

theorem success_line_then_failure_witness:
  "import_Image pillow = None \<and>
   Image_open pillow (dir_no_read_back (Encoded rgb_png)) src =
     (Inr rgb_png, dir_no_read_back (Encoded rgb_png)) \<and>
   stdout (main pillow (dir_no_read_back (Encoded rgb_png))) =
     [''Successfully converted to RGBA format'',
      ''Error: [Errno 13] Permission denied: '' @ quoted ''app_icon_rgba.png''] \<and>
   exit_status (main pillow (dir_no_read_back (Encoded rgb_png))) = 1 \<and>
   files (world (main pillow (dir_no_read_back (Encoded rgb_png)))) dst =
     Some (Encoded ((converted rgb_png rgba_of_RGB)\<lparr>format := Some ''PNG''\<rparr>)) \<and>
   mode (converted rgb_png rgba_of_RGB) = ''RGBA''"
proof -
  let ?w = "dir_no_read_back (Encoded rgb_png)"
  let ?out = "converted rgb_png rgba_of_RGB"
  let ?w' = "?w\<lparr>files := (files ?w)(dst \<mapsto> Encoded (?out\<lparr>format := Some ''PNG''\<rparr>))\<rparr>"
  let ?e = "OtherException (''[Errno 13] Permission denied: '' @ quoted dst)"
  have 1: "import_Image pillow = None" by (simp add: pillow_def)
  have 2: "Image_open pillow ?w src = (Inr rgb_png, ?w)"
    by (simp add: pillow_def pillow_open_def dir_no_read_back_def dir_with_def)
  have 3: "converted_by pillow rgb_png ?w ?out ?w"
    by (simp add: converted_by_def pillow_def pillow_convert_def rgb_png_def)
  have 4: "save pillow ?w ?out dst ''PNG'' = (None, ?w')"
    by (simp add: pillow_def pillow_save_def dir_no_read_back_def dir_with_def)
  have 5: "Image_open pillow ?w' dst = (Inl ?e, ?w')"
    by (simp add: pillow_def pillow_open_def dir_no_read_back_def dir_with_def
        src_neq_dst [symmetric])
  have 6: "mode ?out = ''RGBA''" by (simp add: converted_def)
  from success_line_then_failure [OF 1 2 3 4 5] 1 2 6 show ?thesis
    by (simp add: dst_def)
qed

text \<open>
  C10. In every run, of any library and from any world, the only path a save goes to
  is \<^verbatim>\<open>app_icon_rgba.png\<close>, which is not the source, and the only paths opened for
  reading are the source and the destination. The script makes no other kind of
  call: nothing is deleted.
\<close>

theorem only_destination_written:
  "set (written_paths (calls (main L w))) \<subseteq> {dst} \<and>
   src \<notin> set (written_paths (calls (main L w))) \<and>
   set (read_paths (calls (main L w))) \<subseteq> {src, dst}"
proof -
  obtain img img' where "calls (main L w) \<in> set
     [[], [Open src], [Open src, Convert img ''RGBA''],
      Open src # map fst (conversions img) @ [Save img' dst ''PNG''],
      Open src # map fst (conversions img) @ [Save img' dst ''PNG'', Open dst]]"
    using calls_shape [of L w] by blast
  then consider "calls (main L w) = []" | "calls (main L w) = [Open src]"
    | "calls (main L w) = [Open src, Convert img ''RGBA'']"
    | "calls (main L w) = Open src # map fst (conversions img) @ [Save img' dst ''PNG'']"
    | "calls (main L w) =
         Open src # map fst (conversions img) @ [Save img' dst ''PNG'', Open dst]"
    by auto
  then show ?thesis
    using src_neq_dst by cases simp_all
qed

theorem only_destination_written_witness:
  "written_paths (calls (main pillow (dir_with (Encoded rgb_png)))) = [dst] \<and>
   read_paths (calls (main pillow (dir_with (Encoded rgb_png)))) = [src, dst] \<and>
   src \<notin> set (written_paths (calls (main pillow (dir_with (Encoded rgb_png))))) \<and>
   files (world (main pillow (dir_with (Encoded rgb_png)))) src = Some (Encoded rgb_png)"
proof -
  have "written_paths (calls (main pillow (dir_with (Encoded rgb_png)))) = [dst]"
    "read_paths (calls (main pillow (dir_with (Encoded rgb_png)))) = [src, dst]"
    by (simp_all add: run_rgb_png calls_def)
  moreover have
    "files (world (main pillow (dir_with (Encoded rgb_png)))) src = Some (Encoded rgb_png)"
    unfolding run_rgb_png by (simp add: dir_with_def src_neq_dst)
  ultimately show ?thesis
    using only_destination_written [of pillow "dir_with (Encoded rgb_png)"] by simp
qed

end
